theory Spec2Isabelle
  imports Complex_Main
begin

section \<open>JavaScript values and strings\<close>

text \<open>
  The module is JavaScript running inside the Foundry VTT host. Documents are modelled
  by their data; a field that may be \<^verbatim>\<open>undefined\<close> is an \<open>option\<close>. A
  string is the list of its code units, and the type \<open>char\<close> holds the code units
  below U+0100 (Basic Latin and Latin-1 Supplement): strings with other characters are
  outside the model, and on the strings inside it case folding and the regular
  expression \<^verbatim>\<open>\s\<close> are those of JavaScript. A setting of type Number is a
  rational number. The only exception the module itself can provoke is a property read
  on \<^verbatim>\<open>undefined\<close> or \<^verbatim>\<open>null\<close>.
\<close>

datatype error = TypeError

text \<open>
  The values that the truthiness tests and comparisons of the module meet:
  \<^verbatim>\<open>undefined\<close>, a boolean, a number, and \<open>Inherited\<close>, a member that a
  property read on an object literal finds on \<^verbatim>\<open>Object.prototype\<close> (a function or
  an object: truthy, and \<^verbatim>\<open>NaN\<close> in a numeric comparison).
\<close>

datatype jsval = Undefined | Boolean bool | Number int | Inherited

fun truthy :: "jsval \<Rightarrow> bool" where
  "truthy Undefined = False"
| "truthy (Boolean b) = b"
| "truthy (Number n) = (n \<noteq> 0)"
| "truthy Inherited = True"

text \<open>\<^verbatim>\<open>a || b\<close>\<close>

definition js_or :: "jsval \<Rightarrow> jsval \<Rightarrow> jsval" where
  "js_or a b = (if truthy a then a else b)"

text \<open>\<^verbatim>\<open>a > b\<close> and \<^verbatim>\<open>a >= b\<close> on the operands that occur: a comparison
  with a non-number is a comparison with \<^verbatim>\<open>NaN\<close>, which is false.\<close>

fun js_gt :: "jsval \<Rightarrow> jsval \<Rightarrow> bool" where
  "js_gt (Number a) (Number b) = (a > b)"
| "js_gt _ _ = False"

fun js_ge :: "jsval \<Rightarrow> jsval \<Rightarrow> bool" where
  "js_ge (Number a) (Number b) = (a \<ge> b)"
| "js_ge _ _ = False"

text \<open>\<^verbatim>\<open>s || d\<close> on an optional string: \<^verbatim>\<open>undefined\<close> and the empty string
  are falsy.\<close>

definition str_or :: "string option \<Rightarrow> string \<Rightarrow> string" where
  "str_or s d = (case s of None \<Rightarrow> d | Some v \<Rightarrow> if v = [] then d else v)"

text \<open>A template literal prints a missing value as the word \<^verbatim>\<open>undefined\<close>.\<close>

definition template :: "string option \<Rightarrow> string" where
  "template s = (case s of None \<Rightarrow> ''undefined'' | Some v \<Rightarrow> v)"

text \<open>\<^verbatim>\<open>toLowerCase\<close> on one code unit: the capital letters A to Z, and in Latin-1
  U+00C0 to U+00D6 and U+00D8 to U+00DE, have their small letter 32 places on.\<close>

definition toLowerCase_char :: "char \<Rightarrow> char" where
  "toLowerCase_char c =
     (let n = (of_char c :: nat)
      in if (65 \<le> n \<and> n \<le> 90) \<or> (192 \<le> n \<and> n \<le> 214) \<or> (216 \<le> n \<and> n \<le> 222)
         then char_of (n + 32)
         else c)"

definition toLowerCase :: "string \<Rightarrow> string" where
  "toLowerCase s = map toLowerCase_char s"

text \<open>\<^verbatim>\<open>\s\<close> below U+0100: space, tab, line feed, vertical tab, form feed, carriage
  return and the no-break space U+00A0.\<close>

definition is_space :: "char \<Rightarrow> bool" where
  "is_space c =
     (c \<in> set [CHR '' '', CHR 0x09, CHR 0x0A, CHR 0x0B, CHR 0x0C, CHR 0x0D, CHR 0xA0])"

text \<open>\<^verbatim>\<open>s.replace(/\s/g, '')\<close>\<close>

definition strip_space :: "string \<Rightarrow> string" where
  "strip_space s = filter (\<lambda>c. \<not> is_space c) s"

text \<open>\<^verbatim>\<open>s.includes(p)\<close>: \<open>p\<close> occurs in \<open>s\<close> as a contiguous substring.\<close>

fun str_includes :: "string \<Rightarrow> string \<Rightarrow> bool" where
  "str_includes [] p = (p = [])"
| "str_includes (c # s) p = (take (length p) (c # s) = p \<or> str_includes s p)"

text \<open>
  A property read \<^verbatim>\<open>table[key]\<close> on an object literal with numeric values: an own
  key gives its number, a name that every object inherits gives the inherited member,
  anything else gives \<^verbatim>\<open>undefined\<close>.
\<close>

definition inherited_names :: "string list" where
  "inherited_names =
     [''constructor'', ''__proto__'', ''hasOwnProperty'', ''isPrototypeOf'',
      ''propertyIsEnumerable'', ''toLocaleString'', ''toString'', ''valueOf'',
      ''__defineGetter__'', ''__defineSetter__'', ''__lookupGetter__'', ''__lookupSetter__'']"

definition object_lookup :: "(string \<times> int) list \<Rightarrow> string \<Rightarrow> jsval" where
  "object_lookup table k =
     (case map_of table k of
        Some n \<Rightarrow> Number n
      | None \<Rightarrow> if k \<in> set inherited_names then Inherited else Undefined)"

text \<open>\<^verbatim>\<open>[...new Set(xs)]\<close>: the elements of \<open>xs\<close> in order of first occurrence.\<close>

definition new_Set :: "'a list \<Rightarrow> 'a list" where
  "new_Set xs = foldl (\<lambda>acc x. if x \<in> set acc then acc else acc @ [x]) [] xs"

section \<open>Data model\<close>

type_synonym doc_id = string

text \<open>An active effect. \<open>eff_sourceMod\<close> is the flag
  \<^verbatim>\<open>flags["sw5e-mod-manager"].sourceMod\<close>, \<open>eff_changes\<close> the list of
  (key, mode, value) changes.\<close>

record effect =
  eff_id :: "doc_id option"
  eff_transfer :: bool
  eff_origin :: "string option"
  eff_sourceMod :: "doc_id option"
  eff_changes :: "(string \<times> int \<times> string) list"

text \<open>The \<^verbatim>\<open>system\<close> data that the module reads or writes.
  \<open>sys_properties\<close> is the object of property flags of a modification, each key with
  whether its value is \<^verbatim>\<open>=== true\<close>; \<open>sys_type_value\<close> and \<open>sys_type_label\<close>
  are \<^verbatim>\<open>system.type.value\<close> and \<^verbatim>\<open>system.type.label\<close>.\<close>

record item_system =
  sys_rarity :: "string option"
  sys_description :: "string option"
  sys_weight :: "int option"
  sys_price :: "int option"
  sys_properties :: "(string \<times> bool) list option"
  sys_type_value :: "string option"
  sys_type_label :: "string option"

text \<open>
  The source data of an item, what \<^verbatim>\<open>toObject()\<close> returns. The flags of the
  module's own scope are \<open>d_isWrappedMod\<close> and \<open>d_originalModData\<close>, the flag
  \<^verbatim>\<open>flags.sw5e.type\<close> is \<open>d_sw5e_type\<close>, and \<open>d_other\<close> stands for every
  field the module never reads (folder, ownership, foreign flags).
\<close>

datatype item_data = ItemData
  (d_id: "doc_id option")
  (d_name: "string option")
  (d_type: string)
  (d_img: "string option")
  (d_system: "item_system option")
  (d_effects: "effect list")
  (d_isWrappedMod: bool)
  (d_originalModData: "item_data option")
  (d_sw5e_type: "string option")
  (d_other: string)

text \<open>An item document: its source data and the \<^verbatim>\<open>uuid\<close> the host derives from
  where the document lives.\<close>

record item =
  i_uuid :: "string option"
  i_source :: item_data

definition toObject :: "item \<Rightarrow> item_data" where
  "toObject it = i_source it"

text \<open>An entry of the chassis flag \<^verbatim>\<open>installedMods\<close>, as \<open>performInstall\<close>
  writes it.\<close>

record installed_mod =
  m_id :: "doc_id option"
  m_name :: "string option"
  m_uuid :: "string option"
  m_rarity :: "string option"
  m_originalData :: "item_data option"
  m_properties :: "string list"
  m_effects :: "effect list"

datatype level = Info | Warn | Err

text \<open>
  What an operation on one chassis reads and writes: the chassis document
  (\<open>c_uuid\<close>, \<^verbatim>\<open>system.rarity\<close>, the flag \<^verbatim>\<open>installedMods\<close>, which is
  \<^verbatim>\<open>undefined\<close> until first written, \<^verbatim>\<open>system.properties\<close> in iteration order,
  the embedded effects), the items of the actor that owns the chassis (\<open>None\<close> when
  \<^verbatim>\<open>chassis.actor\<close> is null), the world's item directory \<^verbatim>\<open>game.items\<close>, the
  notifications shown so far, and the counter from which the host draws the ids of the
  documents it creates. The host keeps the ids of a collection distinct.
\<close>

record world =
  c_uuid :: string
  c_rarity :: "string option"
  c_installedMods :: "installed_mod list option"
  c_properties :: "string list"
  c_effects :: "effect list"
  actor_items :: "item_data list option"
  game_items :: "item_data list"
  ui_notifications :: "(level \<times> string) list"
  next_id :: nat

text \<open>The world settings \<^verbatim>\<open>game.settings.get('sw5e-mod-manager', key)\<close>, a
  parameter of the model: \<open>None\<close> is a null or undefined result. The settings are
  registered with \<^verbatim>\<open>type: Number\<close> and no range, so a value is any number that the
  settings store can hold, whole or not, negative or not.\<close>

type_synonym settings = "string \<Rightarrow> rat option"

definition notify :: "level \<Rightarrow> string \<Rightarrow> world \<Rightarrow> world" where
  "notify l msg w = w\<lparr>ui_notifications := ui_notifications w @ [(l, msg)]\<rparr>"

subsection \<open>The host's document operations\<close>

text \<open>
  The host is not part of the module. Its writes are modelled as accepted:
  \<^verbatim>\<open>setFlag\<close> and \<^verbatim>\<open>update\<close> replace the field,
  \<^verbatim>\<open>createEmbeddedDocuments\<close> appends the documents under fresh ids,
  \<^verbatim>\<open>deleteEmbeddedDocuments\<close> and \<^verbatim>\<open>delete\<close> drop the documents with the
  given ids. The handler that \<^verbatim>\<open>performInstall\<close> puts around the creation of the
  effects, which logs a rejection by the host and goes on, is therefore never entered.
\<close>

definition host_id :: "nat \<Rightarrow> doc_id" where
  "host_id n = replicate (Suc n) (CHR ''i'')"

fun assign_ids :: "nat \<Rightarrow> effect list \<Rightarrow> effect list" where
  "assign_ids n [] = []"
| "assign_ids n (e # es) = e\<lparr>eff_id := Some (host_id n)\<rparr> # assign_ids (Suc n) es"

definition createEmbeddedEffects :: "effect list \<Rightarrow> world \<Rightarrow> world" where
  "createEmbeddedEffects es w =
     w\<lparr>c_effects := c_effects w @ assign_ids (next_id w) es,
       next_id := next_id w + length es\<rparr>"

definition deleteEmbeddedEffects :: "doc_id option list \<Rightarrow> world \<Rightarrow> world" where
  "deleteEmbeddedEffects ids w =
     w\<lparr>c_effects := filter (\<lambda>e. eff_id e \<notin> set ids) (c_effects w)\<rparr>"

definition with_id :: "doc_id \<Rightarrow> item_data \<Rightarrow> item_data" where
  "with_id i d =
     ItemData (Some i) (d_name d) (d_type d) (d_img d) (d_system d) (d_effects d)
       (d_isWrappedMod d) (d_originalModData d) (d_sw5e_type d) (d_other d)"

definition createEmbeddedItem :: "item_data \<Rightarrow> item_data list \<Rightarrow> world \<Rightarrow> world" where
  "createEmbeddedItem d items w =
     w\<lparr>actor_items := Some (items @ [with_id (host_id (next_id w)) d]),
       next_id := Suc (next_id w)\<rparr>"

text \<open>\<^verbatim>\<open>chassis.getFlag('sw5e-mod-manager', 'installedMods') || []\<close>\<close>

definition getInstalledMods :: "world \<Rightarrow> installed_mod list" where
  "getInstalledMods chassis =
     (case c_installedMods chassis of None \<Rightarrow> [] | Some mods \<Rightarrow> mods)"

section \<open>Masking on creation\<close>

text \<open>
  The \<^verbatim>\<open>preCreateItem\<close> hook. The pending document is built from the creation
  data, so \<^verbatim>\<open>data.type\<close> is the type of the document. \<^verbatim>\<open>updateSource\<close>
  merges the update into the source: the type is replaced, the two flags are set, every
  other field stays.
\<close>

definition preCreateItem :: "item \<Rightarrow> item" where
  "preCreateItem it =
     (if d_type (i_source it) \<noteq> ''modification'' then it
      else
        let originalModData = toObject it
        in it\<lparr>i_source :=
              ItemData (d_id (i_source it)) (d_name (i_source it)) ''loot''
                (d_img (i_source it)) (d_system (i_source it)) (d_effects (i_source it))
                True (Some originalModData) (d_sw5e_type (i_source it))
                (d_other (i_source it))\<rparr>)"

text \<open>The payload that \<^verbatim>\<open>performInstall\<close> stores (its local \<^verbatim>\<open>modData\<close>):
  the item's own data, or the embedded original when the item is wrapped.\<close>

definition modData :: "item \<Rightarrow> item_data option" where
  "modData modItem =
     (if d_isWrappedMod (i_source modItem) then d_originalModData (i_source modItem)
      else Some (toObject modItem))"

section \<open>The classifier\<close>

definition isModification :: "item option \<Rightarrow> jsval" where
  "isModification arg =
     (case arg of
        None \<Rightarrow> Boolean False
      | Some it \<Rightarrow>
          if d_isWrappedMod (i_source it) then Boolean True
          else
            let uuid = (case i_uuid it of None \<Rightarrow> [] | Some u \<Rightarrow> toLowerCase u) in
            if str_includes uuid ''modifications'' then Boolean True
            else
              let nameMatch =
                    (case d_name (i_source it) of
                       None \<Rightarrow> Undefined
                     | Some n \<Rightarrow> Boolean (str_includes (toLowerCase n) ''modification''));
                  typeValue =
                    (case d_system (i_source it) of
                       None \<Rightarrow> []
                     | Some sys \<Rightarrow>
                         (case sys_type_value sys of None \<Rightarrow> [] | Some v \<Rightarrow> toLowerCase v));
                  typeLabel =
                    (case d_system (i_source it) of
                       None \<Rightarrow> []
                     | Some sys \<Rightarrow>
                         (case sys_type_label sys of None \<Rightarrow> [] | Some v \<Rightarrow> toLowerCase v));
                  typeMatch =
                    (str_includes typeValue ''modification''
                     \<or> str_includes typeLabel ''modification''
                     \<or> d_type (i_source it) = ''modification'');
                  sw5eFlag = (d_sw5e_type (i_source it) = Some ''modification'')
              in js_or (js_or nameMatch (Boolean typeMatch)) (Boolean sw5eFlag))"

section \<open>Slots and rarity\<close>

definition rarityDefaults :: "(string \<times> rat) list" where
  "rarityDefaults =
     [(''common'', 2), (''standard'', 2), (''uncommon'', 3), (''premium'', 3),
      (''rare'', 4), (''prototype'', 4), (''veryrare'', 5), (''advanced'', 5),
      (''legendary'', 6), (''artifact'', 8)]"

text \<open>The settings as the \<^verbatim>\<open>init\<close> hook registers them, each at its default.\<close>

definition registered_defaults :: settings where
  "registered_defaults = map_of (map (\<lambda>(rarity, n). (''slots-'' @ rarity, n)) rarityDefaults)"

text \<open>\<^verbatim>\<open>(label || "common").toLowerCase().replace(/\s/g, '')\<close>\<close>

definition rarityStr :: "string option \<Rightarrow> string" where
  "rarityStr label = strip_space (toLowerCase (str_or label ''common''))"

text \<open>\<^verbatim>\<open>game.settings.get('sw5e-mod-manager', `slots-${rarity}`) ?? 2\<close>\<close>

definition slots_max :: "settings \<Rightarrow> string \<Rightarrow> rat" where
  "slots_max cfg rarity = (case cfg (''slots-'' @ rarity) of None \<Rightarrow> 2 | Some n \<Rightarrow> n)"

text \<open>\<^verbatim>\<open>getSlotCountDisplay\<close> prints \<^verbatim>\<open>(${mods.length} / ${max} slots)\<close>; the model
  returns the two numbers.\<close>

definition getSlotCountDisplay :: "settings \<Rightarrow> world \<Rightarrow> nat \<times> rat" where
  "getSlotCountDisplay cfg chassis =
     (let mods = getInstalledMods chassis;
          rarity = rarityStr (c_rarity chassis);
          maxSlots = slots_max cfg rarity
      in (length mods, maxSlots))"

definition hasAvailableSlots :: "settings \<Rightarrow> world \<Rightarrow> bool" where
  "hasAvailableSlots cfg chassis =
     (let mods = getInstalledMods chassis;
          rarity = rarityStr (c_rarity chassis);
          maxSlots = slots_max cfg rarity
      in of_nat (length mods) < maxSlots)"

text \<open>\<^verbatim>\<open>renderInjectedPropertiesHeader\<close> lists the "Active Tags" of the sheet; the
  model returns the tags listed, none when the header is not rendered.\<close>

definition renderInjectedPropertiesHeader :: "world \<Rightarrow> string list" where
  "renderInjectedPropertiesHeader chassis =
     (let mods = getInstalledMods chassis;
          allProps = concat (map m_properties mods)
      in if allProps = [] then [] else new_Set allProps)"

definition rarityScale :: "(string \<times> int) list" where
  "rarityScale =
     [(''common'', 1), (''standard'', 1), (''uncommon'', 2), (''premium'', 2),
      (''rare'', 3), (''prototype'', 3), (''veryrare'', 4), (''advanced'', 4),
      (''legendary'', 5), (''artifact'', 6)]"

text \<open>\<^verbatim>\<open>rarityScale[str] || 1\<close>\<close>

definition rank :: "string \<Rightarrow> jsval" where
  "rank str = js_or (object_lookup rarityScale str) (Number 1)"

text \<open>\<^verbatim>\<open>validateRarity\<close> reads \<^verbatim>\<open>mod.system.rarity\<close>, which throws when the
  item has no \<^verbatim>\<open>system\<close>; nothing has been written then.\<close>

definition validateRarity :: "world \<Rightarrow> item \<Rightarrow> error + bool \<times> world" where
  "validateRarity chassis modItem =
     (case d_system (i_source modItem) of
        None \<Rightarrow> Inl TypeError
      | Some sys \<Rightarrow>
          let chassisRarityStr = rarityStr (c_rarity chassis);
              modRarityStr = rarityStr (sys_rarity sys);
              chassisRank = rank chassisRarityStr;
              modRank = rank modRarityStr
          in if js_gt modRank chassisRank
             then Inr (False,
                    notify Err (''Cannot install '' @ modRarityStr @ '' modification on a ''
                                @ chassisRarityStr @ '' chassis.'') chassis)
             else Inr (True, chassis))"

section \<open>Install and removal\<close>

definition knownProperties :: "string list" where
  "knownProperties =
     [''brutal'', ''keen'', ''vicious'', ''defensive'', ''shielding'', ''vibration'', ''ion'',
      ''reach'', ''versatile'', ''biting'', ''corruption'', ''disarming'', ''disruptive'',
      ''electrified'', ''hidden'', ''penetrating'', ''rapid'', ''shocking'', ''silent'']"

text \<open>\<^verbatim>\<open>mod.name.toLowerCase()\<close> throws when the item has no name.\<close>

definition getInjectedProperties :: "item \<Rightarrow> error + string list" where
  "getInjectedProperties modItem =
     (case d_name (i_source modItem) of
        None \<Rightarrow> Inl TypeError
      | Some name \<Rightarrow>
          let nameLower = toLowerCase name;
              found = filter (\<lambda>p. str_includes nameLower p) knownProperties
          in Inr (found @
                  (case d_system (i_source modItem) of
                     None \<Rightarrow> []
                   | Some sys \<Rightarrow>
                       (case sys_properties sys of
                          None \<Rightarrow> []
                        | Some props \<Rightarrow> map fst (filter snd props)))))"

text \<open>
  \<^verbatim>\<open>performInstall\<close>. The result is the exception thrown, if any, and the world
  reached. Both throws (no name, no \<^verbatim>\<open>system\<close>) come before the first write.
\<close>

definition performInstall :: "world \<Rightarrow> item \<Rightarrow> error option \<times> world" where
  "performInstall chassis modItem =
     (let currentMods = getInstalledMods chassis in
      case getInjectedProperties modItem of
        Inl e \<Rightarrow> (Some e, chassis)
      | Inr injectedProps \<Rightarrow>
          let modEffects = d_effects (i_source modItem);
              processedEffects =
                map (\<lambda>effect. effect\<lparr>eff_transfer := True,
                                      eff_origin := Some (c_uuid chassis),
                                      eff_sourceMod := d_id (i_source modItem)\<rparr>) modEffects
          in (case d_system (i_source modItem) of
               None \<Rightarrow> (Some TypeError, chassis)
             | Some sys \<Rightarrow>
                 let newModData =
                       \<lparr>m_id = d_id (i_source modItem), m_name = d_name (i_source modItem),
                        m_uuid = i_uuid modItem, m_rarity = sys_rarity sys,
                        m_originalData = modData modItem, m_properties = injectedProps,
                        m_effects = processedEffects\<rparr>;
                     updatedMods = currentMods @ [newModData];
                     w1 = chassis\<lparr>c_installedMods := Some updatedMods\<rparr>;
                     w2 = (if processedEffects \<noteq> []
                           then createEmbeddedEffects processedEffects w1 else w1);
                     w3 = (if injectedProps \<noteq> []
                           then w2\<lparr>c_properties := new_Set (c_properties w2 @ injectedProps)\<rparr>
                           else w2);
                     w4 = (case actor_items w3 of
                             None \<Rightarrow> w3
                           | Some items \<Rightarrow>
                               (case find (\<lambda>i. d_id i = d_id (i_source modItem)) items of
                                  None \<Rightarrow> w3
                                | Some itemInInv \<Rightarrow>
                                    w3\<lparr>actor_items :=
                                         Some (filter (\<lambda>i. d_id i \<noteq> d_id itemInInv) items)\<rparr>))
                 in (None, notify Info (template (d_name (i_source modItem)) @ '' installed.'') w4)))"

text \<open>The object literal \<^verbatim>\<open>lootWrapper\<close>; \<^verbatim>\<open>originalModData.system.description\<close>
  throws when the payload has no \<^verbatim>\<open>system\<close>.\<close>

definition lootWrapper :: "item_data \<Rightarrow> error + item_data" where
  "lootWrapper originalModData =
     (case d_system originalModData of
        None \<Rightarrow> Inl TypeError
      | Some sys \<Rightarrow>
          Inr (ItemData None (d_name originalModData) ''loot'' (d_img originalModData)
                 (Some \<lparr>sys_rarity = sys_rarity sys, sys_description = sys_description sys,
                        sys_weight = Some (case sys_weight sys of None \<Rightarrow> 0 | Some v \<Rightarrow> v),
                        sys_price = Some (case sys_price sys of None \<Rightarrow> 0 | Some v \<Rightarrow> v),
                        sys_properties = None, sys_type_value = None, sys_type_label = None\<rparr>)
                 [] True (Some originalModData) None []))"

text \<open>
  \<^verbatim>\<open>performRemove\<close>. The last line reads \<^verbatim>\<open>modToRemoval.name\<close> without the
  \<^verbatim>\<open>?.\<close> of the lines before it, and throws when no entry was found; the writes before
  it have been made by then.
\<close>

definition performRemove :: "world \<Rightarrow> doc_id option \<Rightarrow> bool \<Rightarrow> error option \<times> world" where
  "performRemove chassis modId isSalvaged =
     (let currentMods = getInstalledMods chassis;
          modToRemoval = find (\<lambda>m. m_id m = modId) currentMods;
          updatedMods = filter (\<lambda>m. m_id m \<noteq> modId) currentMods;
          w1 = chassis\<lparr>c_installedMods := Some updatedMods\<rparr>;
          effectsToDelete = filter (\<lambda>e. eff_sourceMod e = modId) (c_effects w1);
          w2 = (if effectsToDelete \<noteq> []
                then deleteEmbeddedEffects (map eff_id effectsToDelete) w1 else w1);
          w3 = (case modToRemoval of
                  None \<Rightarrow> w2
                | Some m \<Rightarrow>
                    if m_properties m \<noteq> []
                    then w2\<lparr>c_properties :=
                             filter (\<lambda>p. p \<notin> set (m_properties m)) (c_properties w2)\<rparr>
                    else w2);
          salvage =
            (if isSalvaged
             then (case actor_items w3 of
                     None \<Rightarrow> None
                   | Some items \<Rightarrow>
                       (case modToRemoval of
                          None \<Rightarrow> None
                        | Some m \<Rightarrow>
                            (case m_originalData m of
                               None \<Rightarrow> None
                             | Some originalModData \<Rightarrow> Some (items, m, originalModData))))
             else None)
      in case salvage of
           Some (items, m, originalModData) \<Rightarrow>
             (case lootWrapper originalModData of
                Inl e \<Rightarrow> (Some e, w3)
              | Inr wrapper \<Rightarrow>
                  (None, notify Info (template (m_name m) @ '' salvaged.'')
                           (createEmbeddedItem wrapper items w3)))
         | None \<Rightarrow>
             if \<not> isSalvaged
             then (case modToRemoval of
                     None \<Rightarrow> (Some TypeError, w3)
                   | Some m \<Rightarrow> (None, notify Warn (template (m_name m) @ '' destroyed.'') w3))
             else (None, w3))"

subsection \<open>The dialog\<close>

text \<open>
  \<^verbatim>\<open>showModActionDialog\<close> receives the dropped item on install and the stored entry
  on removal, and renders a dialog that is not modal: the handler that opened it returns,
  and the callback of a button runs when the user presses it, on the chassis as it is
  then. The model of the function is that callback: it takes the world at the time of the
  press and the button. The roll button comes with the total of the roll
  \<^verbatim>\<open>1d20 + @abilities.int.mod + @prof\<close> and the state of the checkbox "Destroy on
  failure?". The HTML of the dialog and the chat message of the roll are presentation and
  are left out.
\<close>

datatype dialog_mod = ModItem item | ModEntry installed_mod

datatype button = Roll int bool | Direct | Cancel

definition rarities :: "(string \<times> int) list" where
  "rarities =
     [(''common'', 10), (''standard'', 10), (''uncommon'', 14), (''premium'', 14),
      (''rare'', 18), (''prototype'', 18), (''veryrare'', 22), (''advanced'', 22),
      (''legendary'', 26), (''artifact'', 30)]"

text \<open>\<^verbatim>\<open>mod.id\<close>\<close>

fun mod_id :: "dialog_mod \<Rightarrow> doc_id option" where
  "mod_id (ModItem it) = d_id (i_source it)"
| "mod_id (ModEntry m) = m_id m"

text \<open>\<^verbatim>\<open>(mod.system?.rarity || mod.rarity || 'common').toLowerCase().replace(/\s/g, '')\<close>:
  an item document has no \<^verbatim>\<open>rarity\<close> of its own, a stored entry has no
  \<^verbatim>\<open>system\<close>.\<close>

fun rarityKey :: "dialog_mod \<Rightarrow> string" where
  "rarityKey (ModItem it) =
     rarityStr (case d_system (i_source it) of None \<Rightarrow> None | Some sys \<Rightarrow> sys_rarity sys)"
| "rarityKey (ModEntry m) = rarityStr (m_rarity m)"

text \<open>\<^verbatim>\<open>rarities[rarityKey] || 14\<close>\<close>

definition dc :: "dialog_mod \<Rightarrow> jsval" where
  "dc m = js_or (object_lookup rarities (rarityKey m)) (Number 14)"

text \<open>\<^verbatim>\<open>performInstall(chassis, mod)\<close> on a stored entry throws at
  \<^verbatim>\<open>mod.toObject()\<close>, before any write.\<close>

fun install :: "world \<Rightarrow> dialog_mod \<Rightarrow> error option \<times> world" where
  "install chassis (ModItem it) = performInstall chassis it"
| "install chassis (ModEntry m) = (Some TypeError, chassis)"

definition showModActionDialog ::
  "world \<Rightarrow> dialog_mod \<Rightarrow> string \<Rightarrow> button \<Rightarrow> error option \<times> world" where
  "showModActionDialog chassis m actionType pressed =
     (let isInstall = (actionType = ''install'') in
      case pressed of
        Cancel \<Rightarrow> (None, chassis)
      | Direct \<Rightarrow>
          if isInstall then install chassis m else performRemove chassis (mod_id m) True
      | Roll rollTotal checked \<Rightarrow>
          (case actor_items chassis of
             None \<Rightarrow> (None, chassis)
           | Some actor \<Rightarrow>
               let destroyOnFail = (\<not> isInstall \<and> checked) in
               if js_ge (Number rollTotal) (dc m)
               then
                 let w = notify Info ''Success!'' chassis in
                 if isInstall then install w m else performRemove w (mod_id m) True
               else if isInstall then (None, notify Warn ''Installation failed.'' chassis)
               else if destroyOnFail
               then performRemove
                      (notify Err ''Failure! The modification was destroyed during removal.''
                         chassis)
                      (mod_id m) False
               else (None,
                     notify Warn
                       ''Uninstall failed. The modification remains installed on the weapon.''
                       chassis)))"

subsection \<open>The handlers of the item sheet\<close>

text \<open>
  A dialog that is open: the modification or entry and the action it was opened for.
\<close>

type_synonym dialog = "dialog_mod \<times> string"

text \<open>
  The drop handler, with the item that \<^verbatim>\<open>Item.fromDropData\<close> resolved. It ends by
  opening the install dialog or without one. When no item was resolved the classifier
  answers false and the warning then reads \<^verbatim>\<open>modItem.name\<close>, which throws.
\<close>

definition on_drop ::
  "settings \<Rightarrow> world \<Rightarrow> string \<Rightarrow> item option \<Rightarrow> error option \<times> world \<times> dialog option" where
  "on_drop cfg chassis dropType modItem =
     (if dropType \<noteq> ''Item'' then (None, chassis, None)
      else
        case modItem of
          None \<Rightarrow> (Some TypeError, chassis, None)
        | Some it \<Rightarrow>
            if \<not> truthy (isModification (Some it))
            then (None,
                  notify Warn ([CHR 0x22] @ template (d_name (i_source it)) @ [CHR 0x22]
                               @ '' does not appear to be a valid SW5e modification.'')
                    chassis,
                  None)
            else if \<not> hasAvailableSlots cfg chassis
            then (None,
                  notify Err ''This chassis has no available modification slots.'' chassis,
                  None)
            else (case validateRarity chassis it of
                    Inl e \<Rightarrow> (Some e, chassis, None)
                  | Inr (ok, w) \<Rightarrow>
                      if \<not> ok then (None, w, None)
                      else (None, w, Some (ModItem it, ''install''))))"

text \<open>The click on the uninstall control of a listed entry: it opens the removal dialog
  of the entry with that id, if there is one, and writes nothing.\<close>

definition on_mod_delete :: "world \<Rightarrow> doc_id option \<Rightarrow> dialog option" where
  "on_mod_delete chassis modId =
     (let mods = getInstalledMods chassis in
      case find (\<lambda>m. m_id m = modId) mods of
        None \<Rightarrow> None
      | Some entry \<Rightarrow> Some (ModEntry entry, ''remove''))"

text \<open>
  The item sheet: the world and the dialogs that are open, oldest first. The user drops
  an item, clicks an uninstall control, or presses a button of one of the open dialogs in
  any order; pressing a button runs its callback on the world as it is and closes the
  dialog. An exception ends the handler or callback; the world keeps what was written
  before it.
\<close>

record sheet =
  s_world :: world
  s_dialogs :: "dialog list"

datatype event = Dropped string "item option" | Clicked "doc_id option" | Pressed nat button

fun fire :: "settings \<Rightarrow> sheet \<Rightarrow> event \<Rightarrow> sheet" where
  "fire cfg s (Dropped dropType modItem) =
     (case on_drop cfg (s_world s) dropType modItem of
        (e, w, opened) \<Rightarrow>
          \<lparr>s_world = w,
           s_dialogs = s_dialogs s @ (case opened of None \<Rightarrow> [] | Some d \<Rightarrow> [d])\<rparr>)"
| "fire cfg s (Clicked modId) =
     s\<lparr>s_dialogs :=
         s_dialogs s @ (case on_mod_delete (s_world s) modId of None \<Rightarrow> [] | Some d \<Rightarrow> [d])\<rparr>"
| "fire cfg s (Pressed k pressed) =
     (if k < length (s_dialogs s)
      then (case s_dialogs s ! k of
              (m, actionType) \<Rightarrow>
                \<lparr>s_world = snd (showModActionDialog (s_world s) m actionType pressed),
                 s_dialogs = take k (s_dialogs s) @ drop (Suc k) (s_dialogs s)\<rparr>)
      else s)"

definition play :: "settings \<Rightarrow> sheet \<Rightarrow> event list \<Rightarrow> sheet" where
  "play cfg s events = foldl (fire cfg) s events"

text \<open>
  The drop handler and the uninstall click carried through: the handler, and at once a
  button of the dialog it has opened.
\<close>

definition drop_handler ::
  "settings \<Rightarrow> world \<Rightarrow> string \<Rightarrow> item option \<Rightarrow> button \<Rightarrow> error option \<times> world" where
  "drop_handler cfg chassis dropType modItem pressed =
     (if dropType \<noteq> ''Item'' then (None, chassis)
      else
        case modItem of
          None \<Rightarrow> (Some TypeError, chassis)
        | Some it \<Rightarrow>
            if \<not> truthy (isModification (Some it))
            then (None,
                  notify Warn ([CHR 0x22] @ template (d_name (i_source it)) @ [CHR 0x22]
                               @ '' does not appear to be a valid SW5e modification.'')
                    chassis)
            else if \<not> hasAvailableSlots cfg chassis
            then (None,
                  notify Err ''This chassis has no available modification slots.'' chassis)
            else (case validateRarity chassis it of
                    Inl e \<Rightarrow> (Some e, chassis)
                  | Inr (ok, w) \<Rightarrow>
                      if \<not> ok then (None, w)
                      else showModActionDialog w (ModItem it) ''install'' pressed))"

definition mod_delete :: "world \<Rightarrow> doc_id option \<Rightarrow> button \<Rightarrow> error option \<times> world" where
  "mod_delete chassis modId pressed =
     (let mods = getInstalledMods chassis in
      case find (\<lambda>m. m_id m = modId) mods of
        None \<Rightarrow> (None, chassis)
      | Some entry \<Rightarrow> showModActionDialog chassis (ModEntry entry) ''remove'' pressed)"

text \<open>
  An operation run to its end before the next begins, as the design assumes: on a sheet
  with no dialog open, the event of the handler and then the press of a button of the
  dialog it has opened. A sequence of such operations is the sequence of their events.
\<close>

datatype operation = Drop string "item option" button | ModDelete "doc_id option" button

fun events_of :: "operation \<Rightarrow> event list" where
  "events_of (Drop dropType modItem pressed) = [Dropped dropType modItem, Pressed 0 pressed]"
| "events_of (ModDelete modId pressed) = [Clicked modId, Pressed 0 pressed]"

definition step :: "settings \<Rightarrow> world \<Rightarrow> operation \<Rightarrow> world" where
  "step cfg w op = s_world (play cfg \<lparr>s_world = w, s_dialogs = []\<rparr> (events_of op))"

definition run :: "settings \<Rightarrow> world \<Rightarrow> operation list \<Rightarrow> world" where
  "run cfg w ops = foldl (step cfg) w ops"

section \<open>Example documents\<close>

text \<open>Three modifications and a common chassis in the inventory of an actor who also
  carries the first two modifications; the third lies in the world's item directory.\<close>

definition keen_edge :: item where
  "keen_edge =
     \<lparr>i_uuid = Some ''Actor.hero.Item.mod-a'',
      i_source =
        ItemData (Some ''mod-a'') (Some ''Keen Edge'') ''modification'' (Some ''edge.png'')
          (Some \<lparr>sys_rarity = Some ''Common'', sys_description = Some ''A sharper edge.'',
                 sys_weight = None, sys_price = Some 100, sys_properties = None,
                 sys_type_value = None, sys_type_label = None\<rparr>)
          [\<lparr>eff_id = Some ''eff-a'', eff_transfer = False, eff_origin = None,
            eff_sourceMod = None, eff_changes = [(''system.bonuses.mwak.attack'', 2, ''1'')]\<rparr>]
          False None None ''sort=100''\<rparr>"

definition keen_blade :: item where
  "keen_blade =
     \<lparr>i_uuid = Some ''Actor.hero.Item.mod-b'',
      i_source =
        ItemData (Some ''mod-b'') (Some ''Keen Blade'') ''modification'' None
          (Some \<lparr>sys_rarity = None, sys_description = None, sys_weight = None,
                 sys_price = None, sys_properties = None, sys_type_value = None,
                 sys_type_label = None\<rparr>)
          [] False None None []\<rparr>"

definition ion_core :: item where
  "ion_core =
     \<lparr>i_uuid = Some ''Item.mod-c'',
      i_source =
        ItemData (Some ''mod-c'') (Some ''Ion Core'') ''modification'' None
          (Some \<lparr>sys_rarity = Some ''Legendary'', sys_description = None, sys_weight = None,
                 sys_price = None, sys_properties = None, sys_type_value = None,
                 sys_type_label = None\<rparr>)
          [] False None None []\<rparr>"

definition common_chassis :: world where
  "common_chassis =
     \<lparr>c_uuid = ''Actor.hero.Item.blaster'', c_rarity = Some ''Common'',
      c_installedMods = None, c_properties = [], c_effects = [],
      actor_items = Some [i_source keen_edge, i_source keen_blade],
      game_items = [i_source ion_core], ui_notifications = [], next_id = 0\<rparr>"

text \<open>Two installs that fill the chassis, a third one that is turned away, and a
  checked removal that fails and destroys.\<close>

definition session :: "operation list" where
  "session =
     [Drop ''Item'' (Some keen_edge) Direct,
      Drop ''Item'' (Some keen_blade) (Roll 17 False),
      Drop ''Item'' (Some ion_core) Direct,
      ModDelete (Some ''mod-a'') (Roll 3 True)]"

text \<open>The chassis after the two installs, the same chassis outside any actor, and the
  chassis before the installs with the first modification lying in the world's item
  directory instead of the actor's inventory.\<close>

definition full_chassis :: world where
  "full_chassis = run registered_defaults common_chassis (take 2 session)"

definition loose_chassis :: world where
  "loose_chassis = full_chassis\<lparr>actor_items := None\<rparr>"

definition directory_world :: world where
  "directory_world =
     common_chassis\<lparr>actor_items := Some [], game_items := [i_source keen_edge]\<rparr>"

definition directory_keen_edge :: item where
  "directory_keen_edge = keen_edge\<lparr>i_uuid := Some ''Item.mod-a''\<rparr>"

text \<open>The entry that the first install stores.\<close>

definition keen_edge_entry :: installed_mod where
  "keen_edge_entry =
     \<lparr>m_id = Some ''mod-a'', m_name = Some ''Keen Edge'',
      m_uuid = Some ''Actor.hero.Item.mod-a'', m_rarity = Some ''Common'',
      m_originalData = Some (i_source keen_edge), m_properties = [''keen''],
      m_effects =
        [\<lparr>eff_id = Some ''eff-a'', eff_transfer = True,
          eff_origin = Some ''Actor.hero.Item.blaster'', eff_sourceMod = Some ''mod-a'',
          eff_changes = [(''system.bonuses.mwak.attack'', 2, ''1'')]\<rparr>]\<rparr>"

text \<open>A modification whose rarity label is in no table.\<close>

definition mythic_shard :: item where
  "mythic_shard =
     \<lparr>i_uuid = Some ''Item.mod-d'',
      i_source =
        ItemData (Some ''mod-d'') (Some ''Mythic Shard'') ''modification'' None
          (Some \<lparr>sys_rarity = Some ''Mythic'', sys_description = None, sys_weight = None,
                 sys_price = None, sys_properties = None, sys_type_value = None,
                 sys_type_label = None\<rparr>)
          [] False None None []\<rparr>"

text \<open>Three drops on the empty common chassis while no dialog has been answered yet, and
  then the Direct button of each of the three dialogs.\<close>

definition three_open_dialogs :: "event list" where
  "three_open_dialogs =
     [Dropped ''Item'' (Some keen_edge), Dropped ''Item'' (Some keen_blade),
      Dropped ''Item'' (Some mythic_shard),
      Pressed 0 Direct, Pressed 0 Direct, Pressed 0 Direct]"

text \<open>The same three installs one after the other.\<close>

definition three_installs :: "operation list" where
  "three_installs =
     [Drop ''Item'' (Some keen_edge) Direct, Drop ''Item'' (Some keen_blade) Direct,
      Drop ''Item'' (Some mythic_shard) Direct]"

text \<open>The registered settings with the maximum of a common chassis set to two and a
  half, and set to minus one.\<close>

definition half_slot_settings :: settings where
  "half_slot_settings = registered_defaults(''slots-common'' \<mapsto> 5 / 2)"

definition negative_slot_settings :: settings where
  "negative_slot_settings = registered_defaults(''slots-common'' \<mapsto> - 1)"

text \<open>The common chassis with its rarity label changed to a name that every object
  inherits.\<close>

definition constructor_chassis :: world where
  "constructor_chassis = common_chassis\<lparr>c_rarity := Some ''Constructor''\<rparr>"

section \<open>Properties\<close>

subsection \<open>What each operation leaves alone\<close>

lemma notify_frame:
  "getInstalledMods (notify l s w) = getInstalledMods w"
  "c_rarity (notify l s w) = c_rarity w"
  "c_installedMods (notify l s w) = c_installedMods w"
  "c_properties (notify l s w) = c_properties w"
  "c_effects (notify l s w) = c_effects w"
  "actor_items (notify l s w) = actor_items w"
  "game_items (notify l s w) = game_items w"
  "next_id (notify l s w) = next_id w"
  "c_uuid (notify l s w) = c_uuid w"
  "ui_notifications (notify l s w) = ui_notifications w @ [(l, s)]"
  by (simp_all add: notify_def getInstalledMods_def)

lemma performInstall_rarity: "c_rarity (snd (performInstall w m)) = c_rarity w"
  by (simp add: performInstall_def Let_def notify_frame createEmbeddedEffects_def
      split: sum.splits option.splits)

lemma performInstall_length:
  "length (getInstalledMods (snd (performInstall w m))) \<le> Suc (length (getInstalledMods w))"
  by (simp add: performInstall_def Let_def notify_frame createEmbeddedEffects_def
      getInstalledMods_def split: sum.splits option.splits)

lemma performRemove_rarity: "c_rarity (snd (performRemove w i s)) = c_rarity w"
  by (simp add: performRemove_def Let_def notify_frame createEmbeddedItem_def
      deleteEmbeddedEffects_def split: sum.splits option.splits)

lemma performRemove_mods:
  "getInstalledMods (snd (performRemove w i s))
   = filter (\<lambda>m. m_id m \<noteq> i) (getInstalledMods w)"
  by (simp add: performRemove_def Let_def notify_frame createEmbeddedItem_def
      deleteEmbeddedEffects_def getInstalledMods_def split: sum.splits option.splits)

lemma performRemove_length:
  "length (getInstalledMods (snd (performRemove w i s))) \<le> length (getInstalledMods w)"
  by (simp add: performRemove_mods)

lemma install_rarity: "c_rarity (snd (install w m)) = c_rarity w"
  by (cases m) (simp_all add: performInstall_rarity)

lemma install_length:
  "length (getInstalledMods (snd (install w m))) \<le> Suc (length (getInstalledMods w))"
  by (cases m) (simp_all add: performInstall_length)

lemma dialog_rarity: "c_rarity (snd (showModActionDialog w m a b)) = c_rarity w"
  by (simp add: showModActionDialog_def Let_def install_rarity performRemove_rarity
      notify_frame split: button.splits option.splits)

lemma dialog_length:
  "length (getInstalledMods (snd (showModActionDialog w m a b)))
   \<le> Suc (length (getInstalledMods w))"
proof -
  have i: "\<And>w'. getInstalledMods w' = getInstalledMods w \<Longrightarrow>
      length (getInstalledMods (snd (install w' m))) \<le> Suc (length (getInstalledMods w))"
    using install_length by metis
  have r: "\<And>w' s. getInstalledMods w' = getInstalledMods w \<Longrightarrow>
      length (getInstalledMods (snd (performRemove w' (mod_id m) s)))
      \<le> Suc (length (getInstalledMods w))"
    using performRemove_length le_SucI by metis
  show ?thesis
    by (simp add: showModActionDialog_def Let_def i r notify_frame
        split: button.splits option.splits)
qed

lemma dialog_length_from:
  "getInstalledMods w' = getInstalledMods w \<Longrightarrow>
   length (getInstalledMods (snd (showModActionDialog w' m a b)))
   \<le> Suc (length (getInstalledMods w))"
  using dialog_length [of w' m a b] by simp

lemma dialog_remove_length:
  assumes "a \<noteq> ''install''"
  shows "length (getInstalledMods (snd (showModActionDialog w m a b)))
         \<le> length (getInstalledMods w)"
proof -
  have r: "\<And>w' s. getInstalledMods w' = getInstalledMods w \<Longrightarrow>
      length (getInstalledMods (snd (performRemove w' (mod_id m) s)))
      \<le> length (getInstalledMods w)"
    using performRemove_length by metis
  from assms show ?thesis
    by (simp add: showModActionDialog_def Let_def r notify_frame
        split: button.splits option.splits)
qed

lemma validateRarity_frame:
  "validateRarity w it = Inr (ok, w') \<Longrightarrow>
   getInstalledMods w' = getInstalledMods w \<and> c_rarity w' = c_rarity w"
  by (auto simp: validateRarity_def Let_def notify_frame split: option.splits if_splits)

lemma drop_rarity: "c_rarity (snd (drop_handler cfg w t mi b)) = c_rarity w"
  by (auto simp: drop_handler_def notify_frame dialog_rarity dest: validateRarity_frame
      split: option.splits sum.splits)

lemma drop_length_free:
  "length (getInstalledMods (snd (drop_handler cfg w t mi b)))
   \<le> Suc (length (getInstalledMods w))"
  by (auto simp: drop_handler_def notify_frame dest!: validateRarity_frame
      intro: dialog_length_from split: option.splits sum.splits)

lemma drop_length_full:
  "\<not> hasAvailableSlots cfg w \<Longrightarrow>
   getInstalledMods (snd (drop_handler cfg w t mi b)) = getInstalledMods w"
  by (auto simp: drop_handler_def notify_frame split: option.splits sum.splits)

lemma mod_delete_rarity: "c_rarity (snd (mod_delete w i b)) = c_rarity w"
  by (simp add: mod_delete_def Let_def dialog_rarity split: option.splits)

lemma mod_delete_length:
  "length (getInstalledMods (snd (mod_delete w i b))) \<le> length (getInstalledMods w)"
  by (simp add: mod_delete_def Let_def dialog_remove_length split: option.splits)

text \<open>The handlers carried through are the handler's event followed by the press.\<close>

lemma drop_handler_events:
  "drop_handler cfg w t mi b =
     (case on_drop cfg w t mi of
        (e, w', None) \<Rightarrow> (e, w')
      | (e, w', Some (m, a)) \<Rightarrow> showModActionDialog w' m a b)"
  by (simp add: drop_handler_def on_drop_def split: option.splits sum.splits prod.splits)

lemma mod_delete_events:
  "mod_delete w i b =
     (case on_mod_delete w i of
        None \<Rightarrow> (None, w)
      | Some (m, a) \<Rightarrow> showModActionDialog w m a b)"
  by (simp add: mod_delete_def on_mod_delete_def split: option.splits)

lemma on_drop_frame:
  "on_drop cfg w t mi = (e, w', d) \<Longrightarrow>
   getInstalledMods w' = getInstalledMods w \<and> c_rarity w' = c_rarity w"
  by (auto simp: on_drop_def notify_frame dest: validateRarity_frame
      split: if_splits option.splits sum.splits)

lemma play_Drop:
  "play cfg \<lparr>s_world = w, s_dialogs = []\<rparr> [Dropped t mi, Pressed 0 b]
   = \<lparr>s_world = snd (drop_handler cfg w t mi b), s_dialogs = []\<rparr>"
  by (cases "on_drop cfg w t mi")
     (simp add: play_def drop_handler_events split: option.splits prod.splits)

lemma play_ModDelete:
  "play cfg \<lparr>s_world = w, s_dialogs = []\<rparr> [Clicked i, Pressed 0 b]
   = \<lparr>s_world = snd (mod_delete w i b), s_dialogs = []\<rparr>"
  by (simp add: play_def mod_delete_events split: option.splits prod.splits)

lemma step_Drop: "step cfg w (Drop t mi b) = snd (drop_handler cfg w t mi b)"
  by (simp add: step_def play_Drop)

lemma step_ModDelete: "step cfg w (ModDelete i b) = snd (mod_delete w i b)"
  by (simp add: step_def play_ModDelete)

lemma play_events_of:
  "play cfg \<lparr>s_world = w, s_dialogs = []\<rparr> (events_of op)
   = \<lparr>s_world = step cfg w op, s_dialogs = []\<rparr>"
  by (cases op) (simp_all add: play_Drop play_ModDelete step_Drop step_ModDelete)

lemma first_event_frame:
  "getInstalledMods (s_world (fire cfg \<lparr>s_world = w, s_dialogs = []\<rparr> (hd (events_of op))))
     = getInstalledMods w
   \<and> c_rarity (s_world (fire cfg \<lparr>s_world = w, s_dialogs = []\<rparr> (hd (events_of op))))
     = c_rarity w"
proof (cases op)
  case (Drop t mi b)
  obtain e w' d where r: "on_drop cfg w t mi = (e, w', d)"
    by (cases "on_drop cfg w t mi")
  with Drop on_drop_frame [OF r] show ?thesis by simp
next
  case (ModDelete i b)
  then show ?thesis by simp
qed

lemma step_rarity: "c_rarity (step cfg w op) = c_rarity w"
  by (cases op) (simp_all add: step_Drop step_ModDelete drop_rarity mod_delete_rarity)

text \<open>Below a whole number, one more is at most that number.\<close>

lemma below_whole:
  assumes "(m::rat) \<in> \<int>" and "of_nat n < m" and "k \<le> Suc n"
  shows "of_nat k \<le> m"
proof -
  from assms(1) obtain z where m: "m = of_int z"
    by (auto elim: Ints_cases)
  from assms(2) have "int n < z"
    unfolding m by (metis of_int_less_iff of_int_of_nat_eq)
  with assms(3) have "int k \<le> z"
    by linarith
  then show ?thesis
    unfolding m by (metis of_int_le_iff of_int_of_nat_eq)
qed

lemma step_slots:
  assumes "slots_max cfg (rarityStr (c_rarity w)) \<in> \<int>"
    and "of_nat (length (getInstalledMods w)) \<le> slots_max cfg (rarityStr (c_rarity w))"
  shows "of_nat (length (getInstalledMods (step cfg w op)))
         \<le> slots_max cfg (rarityStr (c_rarity w))"
proof (cases op)
  case (Drop t mi b)
  show ?thesis
  proof (cases "hasAvailableSlots cfg w")
    case True
    then have "of_nat (length (getInstalledMods w)) < slots_max cfg (rarityStr (c_rarity w))"
      by (simp add: hasAvailableSlots_def Let_def)
    from below_whole [OF assms(1) this drop_length_free [of cfg w t mi b]] Drop
    show ?thesis by (simp add: step_Drop)
  next
    case False
    with assms Drop show ?thesis by (simp add: step_Drop drop_length_full)
  qed
next
  case (ModDelete i b)
  have "(of_nat (length (getInstalledMods (snd (mod_delete w i b)))) :: rat)
        \<le> of_nat (length (getInstalledMods w))"
    using mod_delete_length [of w i b] by simp
  with assms(2) ModDelete show ?thesis by (simp add: step_ModDelete)
qed

lemma run_rarity: "c_rarity (run cfg w ops) = c_rarity w"
  by (induction ops arbitrary: w) (simp_all add: run_def step_rarity)

text \<open>The world after a prefix of the events of a sequence of operations.\<close>

lemma serial_prefix_slots:
  assumes "slots_max cfg (rarityStr (c_rarity w)) \<in> \<int>"
    and "of_nat (length (getInstalledMods w)) \<le> slots_max cfg (rarityStr (c_rarity w))"
  shows "of_nat (length (getInstalledMods
            (s_world (play cfg \<lparr>s_world = w, s_dialogs = []\<rparr>
                        (take k (concat (map events_of ops)))))))
           \<le> slots_max cfg (rarityStr (c_rarity w))
         \<and> c_rarity (s_world (play cfg \<lparr>s_world = w, s_dialogs = []\<rparr>
                                 (take k (concat (map events_of ops)))))
           = c_rarity w"
  using assms
proof (induction ops arbitrary: w k)
  case Nil
  then show ?case by (simp add: play_def)
next
  case (Cons op ops)
  obtain e1 e2 where ev: "events_of op = [e1, e2]"
    by (cases op) simp_all
  show ?case
  proof (cases k)
    case 0
    with Cons.prems show ?thesis by (simp add: play_def)
  next
    case (Suc k1)
    show ?thesis
    proof (cases k1)
      case 0
      with Suc ev first_event_frame [of cfg w op] Cons.prems(2)
      show ?thesis by (simp add: play_def)
    next
      case (Suc k2)
      have two: "play cfg \<lparr>s_world = w, s_dialogs = []\<rparr> [e1, e2]
                 = \<lparr>s_world = step cfg w op, s_dialogs = []\<rparr>"
        using play_events_of [of cfg w op] by (simp add: ev)
      have split: "play cfg \<lparr>s_world = w, s_dialogs = []\<rparr>
                     (take k (concat (map events_of (op # ops))))
                   = play cfg \<lparr>s_world = step cfg w op, s_dialogs = []\<rparr>
                       (take k2 (concat (map events_of ops)))"
        using two \<open>k = Suc k1\<close> Suc by (simp add: ev play_def)
      have r: "c_rarity (step cfg w op) = c_rarity w"
        by (rule step_rarity)
      have whole: "slots_max cfg (rarityStr (c_rarity (step cfg w op))) \<in> \<int>"
        using Cons.prems(1) by (simp add: r)
      have within: "of_nat (length (getInstalledMods (step cfg w op)))
                    \<le> slots_max cfg (rarityStr (c_rarity (step cfg w op)))"
        using step_slots [OF Cons.prems] by (simp add: r)
      from Cons.IH [OF whole within, of k2] show ?thesis
        by (simp only: split r)
    qed
  qed
qed

subsection \<open>Lists, sets and the writes of install and removal\<close>

lemma find_Some_holds: "find P xs = Some x \<Longrightarrow> P x \<and> x \<in> set xs"
  by (induction xs) (auto split: if_splits)

lemma find_None_filter: "find P xs = None \<Longrightarrow> filter (\<lambda>x. \<not> P x) xs = xs"
  by (induction xs) (auto split: if_splits)

lemma set_new_Set_aux:
  "set (foldl (\<lambda>acc x. if x \<in> set acc then acc else acc @ [x]) acc xs) = set acc \<union> set xs"
  by (induction xs arbitrary: acc) auto

lemma set_new_Set: "set (new_Set xs) = set xs"
  by (simp add: new_Set_def set_new_Set_aux)

lemma inventory_delete:
  "(case find (\<lambda>i. d_id i = k) items of
      None \<Rightarrow> w
    | Some itemInInv \<Rightarrow>
        w\<lparr>actor_items := Some (filter (\<lambda>i. d_id i \<noteq> d_id itemInInv) items)\<rparr>)
   = (if find (\<lambda>i. d_id i = k) items = None then w
      else w\<lparr>actor_items := Some (filter (\<lambda>i. d_id i \<noteq> k) items)\<rparr>)"
  by (auto split: option.splits dest: find_Some_holds)

lemma performRemove_effects:
  "c_effects (snd (performRemove w i s))
   = filter (\<lambda>e. eff_id e \<notin> eff_id ` {e \<in> set (c_effects w). eff_sourceMod e = i})
       (c_effects w)"
proof -
  have "filter (\<lambda>e. eff_sourceMod e = i) (c_effects w) = [] \<Longrightarrow>
        filter (\<lambda>e. eff_id e \<notin> eff_id ` {e \<in> set (c_effects w). eff_sourceMod e = i})
          (c_effects w) = c_effects w"
    by (auto simp: filter_empty_conv filter_id_conv)
  then show ?thesis
    by (simp add: performRemove_def Let_def notify_frame createEmbeddedItem_def
        deleteEmbeddedEffects_def split: sum.splits option.splits)
qed

lemma performRemove_no_stamped:
  "e \<in> set (c_effects (snd (performRemove w i s))) \<Longrightarrow> eff_sourceMod e \<noteq> i"
  by (auto simp: performRemove_effects)

lemma performRemove_game_items: "game_items (snd (performRemove w i s)) = game_items w"
  by (simp add: performRemove_def Let_def notify_frame createEmbeddedItem_def
      deleteEmbeddedEffects_def split: sum.splits option.splits)

lemma performRemove_destroy_items:
  "actor_items (snd (performRemove w i False)) = actor_items w"
  by (simp add: performRemove_def Let_def notify_frame deleteEmbeddedEffects_def
      split: option.splits)

lemma performRemove_destroy_report:
  "find (\<lambda>m. m_id m = i) (getInstalledMods w) = Some m \<Longrightarrow>
   fst (performRemove w i False) = None \<and>
   ui_notifications (snd (performRemove w i False))
     = ui_notifications w @ [(Warn, template (m_name m) @ '' destroyed.'')]"
  by (simp add: performRemove_def Let_def notify_frame deleteEmbeddedEffects_def)

lemma performRemove_items_no_actor:
  "actor_items w = None \<Longrightarrow> actor_items (snd (performRemove w i s)) = None"
  by (simp add: performRemove_def Let_def notify_frame deleteEmbeddedEffects_def
      split: option.splits)

lemma performRemove_items_no_entry:
  "find (\<lambda>m. m_id m = i) (getInstalledMods w) = None \<Longrightarrow>
   actor_items (snd (performRemove w i s)) = actor_items w"
  by (simp add: performRemove_def Let_def notify_frame deleteEmbeddedEffects_def
      split: option.splits)

lemma performRemove_items_no_payload:
  "find (\<lambda>m. m_id m = i) (getInstalledMods w) = Some m \<Longrightarrow> m_originalData m = None \<Longrightarrow>
   actor_items (snd (performRemove w i s)) = actor_items w"
  by (simp add: performRemove_def Let_def notify_frame deleteEmbeddedEffects_def
      split: option.splits)

lemma performRemove_items_throw:
  "find (\<lambda>m. m_id m = i) (getInstalledMods w) = Some m \<Longrightarrow>
   m_originalData m = Some orig \<Longrightarrow> lootWrapper orig = Inl e \<Longrightarrow>
   actor_items (snd (performRemove w i s)) = actor_items w"
  by (simp add: performRemove_def Let_def notify_frame deleteEmbeddedEffects_def
      split: option.splits)

lemma performRemove_items_salvaged:
  "actor_items w = Some items \<Longrightarrow>
   find (\<lambda>m. m_id m = i) (getInstalledMods w) = Some m \<Longrightarrow>
   m_originalData m = Some orig \<Longrightarrow> lootWrapper orig = Inr wrapper \<Longrightarrow>
   actor_items (snd (performRemove w i True))
     = Some (items @ [with_id (host_id (next_id w)) wrapper])"
  by (simp add: performRemove_def Let_def notify_frame deleteEmbeddedEffects_def
      createEmbeddedItem_def)

lemma performRemove_no_actor:
  "actor_items w = None \<Longrightarrow>
   fst (performRemove w i True) = None \<and>
   ui_notifications (snd (performRemove w i True)) = ui_notifications w"
  by (simp add: performRemove_def Let_def notify_frame deleteEmbeddedEffects_def
      split: option.splits)

lemma lootWrapper_masks:
  "lootWrapper orig = Inr wrapper \<Longrightarrow>
   d_type wrapper = ''loot'' \<and> d_isWrappedMod wrapper
   \<and> d_originalModData wrapper = Some orig"
  by (auto simp: lootWrapper_def split: option.splits)

text \<open>The uninstall click on an id that is not listed opens no dialog and writes
  nothing.\<close>

lemma mod_delete_unlisted:
  "find (\<lambda>m. m_id m = modId) (getInstalledMods w) = None \<Longrightarrow>
   mod_delete w modId pressed = (None, w)"
  by (simp add: mod_delete_def)

text \<open>A tag of the removed entry is gone from the chassis afterwards.\<close>

lemma performRemove_tags_of_entry:
  "find (\<lambda>m. m_id m = i) (getInstalledMods w) = Some m \<Longrightarrow> t \<in> set (m_properties m) \<Longrightarrow>
   t \<notin> set (c_properties (snd (performRemove w i s)))"
  by (auto simp: performRemove_def Let_def notify_frame deleteEmbeddedEffects_def
      createEmbeddedItem_def split: option.splits sum.splits)

text \<open>The rank falls back to 1 for a label that is no key of the table and no inherited
  name, it is a number from 1 up for every label that is no inherited name, a missing or
  empty label is read as "common", and case and whitespace do not tell labels apart.\<close>

lemma rank_fallback:
  "map_of rarityScale k = None \<Longrightarrow> k \<notin> set inherited_names \<Longrightarrow> rank k = Number 1"
  by (simp add: rank_def object_lookup_def js_or_def)

lemma rank_numeric:
  "k \<notin> set inherited_names \<Longrightarrow> \<exists>n. rank k = Number n \<and> 1 \<le> n"
  by (auto simp: rank_def object_lookup_def js_or_def rarityScale_def
      split: option.splits if_splits)

lemma rarityStr_missing: "rarityStr None = ''common'' \<and> rarityStr (Some []) = ''common''"
  by code_simp

lemma rarityStr_very_rare:
  "rarityStr (Some ''Very Rare'') = ''veryrare'' \<and> rarityStr (Some ''veryrare'') = ''veryrare''"
  by code_simp

subsection \<open>Masking round trip\<close>

text \<open>
  C1. An item of type "modification" that the creation hook has masked is stored with
  type "loot" and the wrapped flag, and the payload that the install reads back from it
  is the data of the original item, every field included.
\<close>

theorem mask_unmask_roundtrip:
  assumes "d_type (i_source it) = ''modification''"
  shows "modData (preCreateItem it) = Some (toObject it)
         \<and> d_originalModData (i_source (preCreateItem it)) = Some (i_source it)
         \<and> d_type (i_source (preCreateItem it)) = ''loot''
         \<and> d_isWrappedMod (i_source (preCreateItem it))"
  using assms by (simp add: modData_def preCreateItem_def toObject_def Let_def)

theorem mask_unmask_roundtrip_witness:
  "d_type (i_source keen_edge) = ''modification''
   \<and> modData (preCreateItem keen_edge) = Some (toObject keen_edge)
   \<and> d_type (i_source (preCreateItem keen_edge)) = ''loot''"
proof -
  have t: "d_type (i_source keen_edge) = ''modification''"
    by (simp add: keen_edge_def)
  show ?thesis
    using t mask_unmask_roundtrip [OF t] by simp
qed

subsection \<open>The classifier is total and boolean\<close>

text \<open>
  C10. The classifier answers false for a null or undefined argument, and a boolean for
  every item, whichever of uuid, name, system and system type the item lacks: a missing
  name makes the name test undefined, and the disjunction then yields one of the two
  boolean tests after it.
\<close>

theorem isModification_boolean:
  "isModification None = Boolean False
   \<and> (\<exists>b. isModification (Some it) = Boolean b)
   \<and> isModification
        (Some \<lparr>i_uuid = None, i_source = ItemData i None t g None es False orig f r\<rparr>)
      = Boolean (t = ''modification'' \<or> f = Some ''modification'')"
  by (auto simp: isModification_def js_or_def Let_def split: option.splits)

subsection \<open>Slot usage stays within the maximum\<close>

text \<open>
  C2, amended. On a chassis whose maximum for its rarity is configured as a whole number
  and whose slot usage is within that maximum (a new chassis under a setting that is not
  negative, for one), let drops and uninstall clicks follow one another so that the
  dialog of each is answered before the next handler runs. Then the usage is within the
  maximum after every event: after every handler and after every button, whatever items
  are dropped and whatever buttons are pressed; and the maximum itself does not move.
\<close>

theorem slot_usage_bounded:
  assumes "snd (getSlotCountDisplay cfg w) \<in> \<int>"
    and "of_nat (fst (getSlotCountDisplay cfg w)) \<le> snd (getSlotCountDisplay cfg w)"
  shows "of_nat (fst (getSlotCountDisplay cfg
            (s_world (play cfg \<lparr>s_world = w, s_dialogs = []\<rparr>
                        (take k (concat (map events_of ops)))))))
           \<le> snd (getSlotCountDisplay cfg
                 (s_world (play cfg \<lparr>s_world = w, s_dialogs = []\<rparr>
                             (take k (concat (map events_of ops))))))
         \<and> snd (getSlotCountDisplay cfg
                 (s_world (play cfg \<lparr>s_world = w, s_dialogs = []\<rparr>
                             (take k (concat (map events_of ops))))))
             = snd (getSlotCountDisplay cfg w)"
  using assms serial_prefix_slots [of cfg w k ops]
  by (simp add: getSlotCountDisplay_def Let_def)

theorem slot_usage_bounded_witness:
  "getSlotCountDisplay registered_defaults common_chassis = (0, 2)
   \<and> snd (getSlotCountDisplay registered_defaults common_chassis) \<in> \<int>
   \<and> of_nat (fst (getSlotCountDisplay registered_defaults common_chassis))
       \<le> snd (getSlotCountDisplay registered_defaults common_chassis)
   \<and> of_nat (fst (getSlotCountDisplay registered_defaults
                   (s_world (play registered_defaults
                               \<lparr>s_world = common_chassis, s_dialogs = []\<rparr>
                               (take 5 (concat (map events_of session)))))))
       \<le> snd (getSlotCountDisplay registered_defaults
                (s_world (play registered_defaults
                            \<lparr>s_world = common_chassis, s_dialogs = []\<rparr>
                            (take 5 (concat (map events_of session))))))
   \<and> getSlotCountDisplay registered_defaults
        (s_world (play registered_defaults \<lparr>s_world = common_chassis, s_dialogs = []\<rparr>
                    (take 5 (concat (map events_of session)))))
       = (2, 2)"
proof -
  have g: "getSlotCountDisplay registered_defaults common_chassis = (0, 2)"
    by code_simp
  have z: "snd (getSlotCountDisplay registered_defaults common_chassis) \<in> \<int>"
    by (simp add: g)
  have h: "of_nat (fst (getSlotCountDisplay registered_defaults common_chassis))
           \<le> snd (getSlotCountDisplay registered_defaults common_chassis)"
    by (simp add: g)
  have v: "getSlotCountDisplay registered_defaults
             (s_world (play registered_defaults \<lparr>s_world = common_chassis, s_dialogs = []\<rparr>
                         (take 5 (concat (map events_of session)))))
           = (2, 2)"
    by code_simp
  from slot_usage_bounded [OF z h, of 5 session] g z h v show ?thesis
    by blast
qed

text \<open>
  Three dialogs opened on the empty common chassis before any is answered install three
  modifications where two fit. Three installs one after the other do the same under a
  maximum of two and a half. Under a maximum of minus one the new chassis is above it.
\<close>

theorem open_dialogs_overfill:
  "getSlotCountDisplay registered_defaults common_chassis = (0, 2)
   \<and> getSlotCountDisplay registered_defaults
        (s_world (play registered_defaults \<lparr>s_world = common_chassis, s_dialogs = []\<rparr>
                    three_open_dialogs))
       = (3, 2)
   \<and> getSlotCountDisplay half_slot_settings common_chassis = (0, 5 / 2)
   \<and> getSlotCountDisplay half_slot_settings
        (run half_slot_settings common_chassis three_installs)
       = (3, 5 / 2)
   \<and> getSlotCountDisplay negative_slot_settings common_chassis = (0, - 1)"
  by code_simp

subsection \<open>Gating by rarity\<close>

text \<open>
  C4, amended. Let the rarity labels of the chassis and of a dropped modification both
  name a number in the rank table or fall back to 1, as every label does that does not
  normalise to a name every object inherits ("constructor", "__proto__"), and let the
  rank of the modification be strictly above the rank of the chassis. Then the
  modification never reaches the install dialog, however many slots are free: the
  handler ends with one error notification and has written nothing else, so the installed
  list, the tags, the effects and the inventory are as before. The capacity test comes
  first: the notification is the rarity message when a slot is free and the message of
  the full chassis when none is.
\<close>

theorem higher_rarity_rejected:
  assumes "truthy (isModification (Some it))"
    and "d_system (i_source it) = Some sys"
    and "rank (rarityStr (sys_rarity sys)) = Number mr"
    and "rank (rarityStr (c_rarity w)) = Number cr"
    and "cr < mr"
  shows "drop_handler cfg w ''Item'' (Some it) pressed =
           (None,
            notify Err
              (if hasAvailableSlots cfg w
               then ''Cannot install '' @ rarityStr (sys_rarity sys) @ '' modification on a ''
                    @ rarityStr (c_rarity w) @ '' chassis.''
               else ''This chassis has no available modification slots.'') w)
         \<and> c_installedMods (snd (drop_handler cfg w ''Item'' (Some it) pressed))
             = c_installedMods w
         \<and> c_properties (snd (drop_handler cfg w ''Item'' (Some it) pressed)) = c_properties w
         \<and> c_effects (snd (drop_handler cfg w ''Item'' (Some it) pressed)) = c_effects w
         \<and> actor_items (snd (drop_handler cfg w ''Item'' (Some it) pressed)) = actor_items w"
  using assms by (simp add: drop_handler_def validateRarity_def Let_def notify_frame)

theorem higher_rarity_rejected_witness:
  "truthy (isModification (Some ion_core))
   \<and> rank (rarityStr (Some ''Legendary'')) = Number 5
   \<and> rank (rarityStr (c_rarity common_chassis)) = Number 1
   \<and> hasAvailableSlots registered_defaults common_chassis
   \<and> drop_handler registered_defaults common_chassis ''Item'' (Some ion_core) Direct
       = (None,
          notify Err ''Cannot install legendary modification on a common chassis.''
            common_chassis)"
proof -
  have 1: "truthy (isModification (Some ion_core))"
    by code_simp
  have 2: "d_system (i_source ion_core)
           = Some \<lparr>sys_rarity = Some ''Legendary'', sys_description = None, sys_weight = None,
                   sys_price = None, sys_properties = None, sys_type_value = None,
                   sys_type_label = None\<rparr>"
    by (simp add: ion_core_def)
  have 3: "rank (rarityStr (Some ''Legendary'')) = Number 5"
    by code_simp
  have 4: "rank (rarityStr (c_rarity common_chassis)) = Number 1"
    by code_simp
  have 5: "hasAvailableSlots registered_defaults common_chassis"
    by code_simp
  have 6: "rarityStr (Some ''Legendary'') = ''legendary''"
    by code_simp
  have 7: "rarityStr (c_rarity common_chassis) = ''common''"
    by code_simp
  from higher_rarity_rejected
         [OF 1 2, of 5 common_chassis 1 registered_defaults Direct] 1 3 4 5 6 7
  show ?thesis by simp
qed

text \<open>On the full common chassis the legendary modification is turned away with the
  message of the full chassis; the rarity message is not shown. On the chassis labelled
  "Constructor" the rank is an inherited member, no number, the comparison is false and
  the legendary modification is installed.\<close>

theorem capacity_reason_and_inherited_rank:
  "rank (rarityStr (Some ''Legendary'')) = Number 5
   \<and> rank (rarityStr (c_rarity full_chassis)) = Number 1
   \<and> getSlotCountDisplay registered_defaults full_chassis = (2, 2)
   \<and> drop_handler registered_defaults full_chassis ''Item'' (Some ion_core) Direct
       = (None, notify Err ''This chassis has no available modification slots.'' full_chassis)
   \<and> rank (rarityStr (c_rarity constructor_chassis)) = Inherited
   \<and> fst (drop_handler registered_defaults constructor_chassis ''Item'' (Some ion_core) Direct)
       = None
   \<and> map m_id (getInstalledMods
         (snd (drop_handler registered_defaults constructor_chassis ''Item''
                 (Some ion_core) Direct)))
       = [Some ''mod-c'']"
  by code_simp

subsection \<open>A failed checked removal\<close>

text \<open>
  C5. The uninstall control of a listed entry is clicked on a chassis owned by an actor,
  the roll button is pressed and the total is below the DC of the entry. With the
  checkbox cleared nothing is written but the warning that the modification remains
  installed. With the checkbox set no exception is thrown, every entry with that id
  leaves the list, no effect stamped with the id stays on the chassis, the inventory and
  the item directory are as before (nothing is recreated), and the two notifications
  report the destruction.
\<close>

theorem checked_removal_failure:
  assumes "find (\<lambda>m. m_id m = modId) (getInstalledMods w) = Some entry"
    and "actor_items w = Some items"
    and "\<not> js_ge (Number rollTotal) (dc (ModEntry entry))"
  shows "mod_delete w modId (Roll rollTotal False)
           = (None,
              notify Warn
                ''Uninstall failed. The modification remains installed on the weapon.'' w)
         \<and> fst (mod_delete w modId (Roll rollTotal True)) = None
         \<and> getInstalledMods (snd (mod_delete w modId (Roll rollTotal True)))
             = filter (\<lambda>m. m_id m \<noteq> modId) (getInstalledMods w)
         \<and> entry \<notin> set (getInstalledMods (snd (mod_delete w modId (Roll rollTotal True))))
         \<and> filter (\<lambda>e. eff_sourceMod e = modId)
              (c_effects (snd (mod_delete w modId (Roll rollTotal True)))) = []
         \<and> actor_items (snd (mod_delete w modId (Roll rollTotal True))) = Some items
         \<and> game_items (snd (mod_delete w modId (Roll rollTotal True))) = game_items w
         \<and> ui_notifications (snd (mod_delete w modId (Roll rollTotal True)))
             = ui_notifications w @
               [(Err, ''Failure! The modification was destroyed during removal.''),
                (Warn, template (m_name entry) @ '' destroyed.'')]"
proof -
  let ?w1 = "notify Err ''Failure! The modification was destroyed during removal.'' w"
  have id: "m_id entry = modId"
    using find_Some_holds [OF assms(1)] by simp
  have a: "mod_delete w modId (Roll rollTotal False)
           = (None,
              notify Warn
                ''Uninstall failed. The modification remains installed on the weapon.'' w)"
    using assms by (simp add: mod_delete_def showModActionDialog_def Let_def)
  have b: "mod_delete w modId (Roll rollTotal True) = performRemove ?w1 modId False"
    using assms id by (simp add: mod_delete_def showModActionDialog_def Let_def)
  have f: "find (\<lambda>m. m_id m = modId) (getInstalledMods ?w1) = Some entry"
    using assms(1) by (simp add: notify_frame)
  have c: "filter (\<lambda>e. eff_sourceMod e = modId)
             (c_effects (snd (performRemove ?w1 modId False))) = []"
    by (auto simp: filter_empty_conv dest: performRemove_no_stamped)
  have d: "entry \<notin> set (filter (\<lambda>m. m_id m \<noteq> modId) (getInstalledMods w))"
    using id by simp
  show ?thesis
    using a c d performRemove_destroy_report [OF f] assms(2)
    by (simp add: b performRemove_mods performRemove_game_items
        performRemove_destroy_items notify_frame)
qed

theorem checked_removal_failure_witness:
  "find (\<lambda>m. m_id m = Some ''mod-a'') (getInstalledMods full_chassis) = Some keen_edge_entry
   \<and> actor_items full_chassis = Some []
   \<and> \<not> js_ge (Number 3) (dc (ModEntry keen_edge_entry))
   \<and> mod_delete full_chassis (Some ''mod-a'') (Roll 3 False)
       = (None,
          notify Warn ''Uninstall failed. The modification remains installed on the weapon.''
            full_chassis)
   \<and> keen_edge_entry
       \<notin> set (getInstalledMods (snd (mod_delete full_chassis (Some ''mod-a'') (Roll 3 True))))
   \<and> actor_items (snd (mod_delete full_chassis (Some ''mod-a'') (Roll 3 True))) = Some []"
proof -
  have 1: "find (\<lambda>m. m_id m = Some ''mod-a'') (getInstalledMods full_chassis)
           = Some keen_edge_entry"
    by code_simp
  have 2: "actor_items full_chassis = Some []"
    by code_simp
  have 3: "\<not> js_ge (Number 3) (dc (ModEntry keen_edge_entry))"
    by code_simp
  from checked_removal_failure [OF 1 2 3] 1 2 3 show ?thesis
    by blast
qed

subsection \<open>What an install does with the source item\<close>

text \<open>
  C8, amended. A successful install appends the entry of the modification to the
  installed list, creates its processed effects on the chassis and leaves the chassis
  with the union of its former tags and the injected ones. The source item is deleted
  only from the inventory of the actor that owns the chassis: the items of that inventory
  with the id of the modification go, a chassis without an actor deletes nothing, and the
  world's item directory is never written, so a modification dropped from there stays.
\<close>

theorem install_records_and_consumes:
  assumes "fst (performInstall w m) = None"
  shows "\<exists>injectedProps sys.
           getInjectedProperties m = Inr injectedProps \<and> d_system (i_source m) = Some sys
         \<and> c_installedMods (snd (performInstall w m))
             = Some (getInstalledMods w @
                 [\<lparr>m_id = d_id (i_source m), m_name = d_name (i_source m), m_uuid = i_uuid m,
                   m_rarity = sys_rarity sys, m_originalData = modData m,
                   m_properties = injectedProps,
                   m_effects = map (\<lambda>e. e\<lparr>eff_transfer := True, eff_origin := Some (c_uuid w),
                                            eff_sourceMod := d_id (i_source m)\<rparr>)
                                 (d_effects (i_source m))\<rparr>])
         \<and> c_effects (snd (performInstall w m))
             = c_effects w @
               assign_ids (next_id w)
                 (map (\<lambda>e. e\<lparr>eff_transfer := True, eff_origin := Some (c_uuid w),
                             eff_sourceMod := d_id (i_source m)\<rparr>) (d_effects (i_source m)))
         \<and> set (c_properties (snd (performInstall w m)))
             = set (c_properties w) \<union> set injectedProps
         \<and> actor_items (snd (performInstall w m))
             = map_option (filter (\<lambda>i. d_id i \<noteq> d_id (i_source m))) (actor_items w)
         \<and> game_items (snd (performInstall w m)) = game_items w"
proof -
  from assms obtain injectedProps sys where
    g: "getInjectedProperties m = Inr injectedProps" and s: "d_system (i_source m) = Some sys"
    by (auto simp: performInstall_def Let_def split: sum.splits option.splits)
  have keep: "\<And>items. actor_items w = Some items \<Longrightarrow>
      find (\<lambda>i. d_id i = d_id (i_source m)) items = None \<Longrightarrow>
      filter (\<lambda>i. d_id i \<noteq> d_id (i_source m)) items = items"
    using find_None_filter [of "\<lambda>i. d_id i = d_id (i_source m)"] by simp
  show ?thesis
    using g s keep
    by (simp add: performInstall_def Let_def notify_frame createEmbeddedEffects_def
        inventory_delete set_new_Set split: option.splits)
qed

theorem install_records_and_consumes_witness:
  "fst (performInstall common_chassis keen_edge) = None
   \<and> actor_items common_chassis = Some [i_source keen_edge, i_source keen_blade]
   \<and> actor_items (snd (performInstall common_chassis keen_edge)) = Some [i_source keen_blade]
   \<and> game_items (snd (performInstall common_chassis keen_edge)) = game_items common_chassis"
proof -
  have ok: "fst (performInstall common_chassis keen_edge) = None"
    by code_simp
  have inventory: "actor_items common_chassis = Some [i_source keen_edge, i_source keen_blade]"
    by (simp add: common_chassis_def)
  have f: "filter (\<lambda>i. d_id i \<noteq> d_id (i_source keen_edge))
             [i_source keen_edge, i_source keen_blade] = [i_source keen_blade]"
    by (simp add: keen_edge_def keen_blade_def)
  from install_records_and_consumes [OF ok] ok inventory f show ?thesis
    by auto
qed

text \<open>A modification dropped from the world's item directory onto the chassis of an
  actor is installed and is still in the directory afterwards.\<close>

theorem install_from_directory_keeps_source:
  "fst (drop_handler registered_defaults directory_world ''Item''
          (Some directory_keen_edge) Direct) = None
   \<and> map m_id (getInstalledMods
         (snd (drop_handler registered_defaults directory_world ''Item''
                 (Some directory_keen_edge) Direct))) = [Some ''mod-a'']
   \<and> game_items directory_world = [i_source directory_keen_edge]
   \<and> game_items (snd (drop_handler registered_defaults directory_world ''Item''
                         (Some directory_keen_edge) Direct)) = [i_source directory_keen_edge]"
  by code_simp

subsection \<open>Salvage\<close>

text \<open>
  C9. A removal changes the inventory of the owning actor only as a salvage on a chassis
  that an actor owns and for an entry with a stored original: the one change is a new
  item of type "loot" that carries the wrapped flag and the original as its payload. On a
  chassis without an actor a salvage removal throws nothing, drops the entries with the
  id and the effects stamped with it, creates no item anywhere and shows no notification,
  neither of a salvage nor of a destruction.
\<close>

theorem salvage_needs_actor_and_payload:
  "(actor_items (snd (performRemove w modId isSalvaged)) \<noteq> actor_items w \<longrightarrow>
      isSalvaged \<and> (\<exists>items m orig wrapper.
         actor_items w = Some items
         \<and> find (\<lambda>m. m_id m = modId) (getInstalledMods w) = Some m
         \<and> m_originalData m = Some orig
         \<and> lootWrapper orig = Inr wrapper
         \<and> d_type wrapper = ''loot'' \<and> d_isWrappedMod wrapper
         \<and> d_originalModData wrapper = Some orig
         \<and> actor_items (snd (performRemove w modId isSalvaged))
             = Some (items @ [with_id (host_id (next_id w)) wrapper])))
   \<and> (actor_items w = None \<longrightarrow>
        fst (performRemove w modId True) = None
        \<and> getInstalledMods (snd (performRemove w modId True))
            = filter (\<lambda>m. m_id m \<noteq> modId) (getInstalledMods w)
        \<and> filter (\<lambda>e. eff_sourceMod e = modId)
             (c_effects (snd (performRemove w modId True))) = []
        \<and> actor_items (snd (performRemove w modId True)) = None
        \<and> game_items (snd (performRemove w modId True)) = game_items w
        \<and> ui_notifications (snd (performRemove w modId True)) = ui_notifications w)"
proof -
  have c: "filter (\<lambda>e. eff_sourceMod e = modId)
             (c_effects (snd (performRemove w modId True))) = []"
    by (auto simp: filter_empty_conv dest: performRemove_no_stamped)
  have a: "actor_items (snd (performRemove w modId isSalvaged)) \<noteq> actor_items w \<longrightarrow>
      isSalvaged \<and> (\<exists>items m orig wrapper.
         actor_items w = Some items
         \<and> find (\<lambda>m. m_id m = modId) (getInstalledMods w) = Some m
         \<and> m_originalData m = Some orig
         \<and> lootWrapper orig = Inr wrapper
         \<and> d_type wrapper = ''loot'' \<and> d_isWrappedMod wrapper
         \<and> d_originalModData wrapper = Some orig
         \<and> actor_items (snd (performRemove w modId isSalvaged))
             = Some (items @ [with_id (host_id (next_id w)) wrapper]))"
  proof (cases isSalvaged)
    case False
    then show ?thesis by (simp add: performRemove_destroy_items)
  next
    case True
    show ?thesis
    proof (cases "actor_items w")
      case None
      then show ?thesis by (simp add: performRemove_items_no_actor)
    next
      case (Some items)
      show ?thesis
      proof (cases "find (\<lambda>m. m_id m = modId) (getInstalledMods w)")
        case None
        then show ?thesis by (simp add: performRemove_items_no_entry)
      next
        case found: (Some m)
        show ?thesis
        proof (cases "m_originalData m")
          case None
          with found show ?thesis by (simp add: performRemove_items_no_payload)
        next
          case payload: (Some orig)
          show ?thesis
          proof (cases "lootWrapper orig")
            case (Inl e)
            with found payload show ?thesis by (simp add: performRemove_items_throw)
          next
            case (Inr wrapper)
            with True Some found payload lootWrapper_masks [OF Inr]
              performRemove_items_salvaged [OF Some found payload Inr]
            show ?thesis by simp
          qed
        qed
      qed
    qed
  qed
  have b: "actor_items w = None \<longrightarrow>
        fst (performRemove w modId True) = None
        \<and> getInstalledMods (snd (performRemove w modId True))
            = filter (\<lambda>m. m_id m \<noteq> modId) (getInstalledMods w)
        \<and> filter (\<lambda>e. eff_sourceMod e = modId)
             (c_effects (snd (performRemove w modId True))) = []
        \<and> actor_items (snd (performRemove w modId True)) = None
        \<and> game_items (snd (performRemove w modId True)) = game_items w
        \<and> ui_notifications (snd (performRemove w modId True)) = ui_notifications w"
    using c
    by (simp add: performRemove_no_actor performRemove_mods performRemove_game_items
        performRemove_items_no_actor)
  from a b show ?thesis by (rule conjI)
qed

theorem salvage_needs_actor_and_payload_witness:
  "actor_items loose_chassis = None
   \<and> map m_id (getInstalledMods loose_chassis) = [Some ''mod-a'', Some ''mod-b'']
   \<and> map m_id (getInstalledMods (snd (performRemove loose_chassis (Some ''mod-a'') True)))
       = [Some ''mod-b'']
   \<and> actor_items (snd (performRemove loose_chassis (Some ''mod-a'') True)) = None
   \<and> ui_notifications (snd (performRemove loose_chassis (Some ''mod-a'') True))
       = ui_notifications loose_chassis
   \<and> actor_items (snd (performRemove full_chassis (Some ''mod-a'') True))
       \<noteq> actor_items full_chassis
   \<and> (\<exists>items. actor_items full_chassis = Some items)"
proof -
  have n: "actor_items loose_chassis = None"
    by (simp add: loose_chassis_def)
  have m: "map m_id (getInstalledMods loose_chassis) = [Some ''mod-a'', Some ''mod-b'']"
    by code_simp
  have c: "actor_items (snd (performRemove full_chassis (Some ''mod-a'') True))
           \<noteq> actor_items full_chassis"
    by code_simp
  from salvage_needs_actor_and_payload [of loose_chassis "Some ''mod-a''" True]
    salvage_needs_actor_and_payload [of full_chassis "Some ''mod-a''" True] n m c
  show ?thesis by auto
qed

subsection \<open>Where the code departs from its description\<close>

text \<open>
  C3. Two installed modifications contribute the tag "keen", which the chassis carries
  once. Uninstalling the first removes every tag of its entry from the chassis: the tag
  is gone although the second modification, still installed, lists it. The header of
  active tags is computed from the remaining entries and goes on showing it.
\<close>

theorem shared_tag_lost_on_removal:
  "map m_properties (getInstalledMods full_chassis) = [[''keen''], [''keen'']]
   \<and> c_properties full_chassis = [''keen'']
   \<and> fst (mod_delete full_chassis (Some ''mod-a'') Direct) = None
   \<and> map m_properties (getInstalledMods (snd (mod_delete full_chassis (Some ''mod-a'') Direct)))
       = [[''keen'']]
   \<and> c_properties (snd (mod_delete full_chassis (Some ''mod-a'') Direct)) = []
   \<and> renderInjectedPropertiesHeader (snd (mod_delete full_chassis (Some ''mod-a'') Direct))
       = [''keen'']"
  by code_simp

text \<open>
  C6. A removal that is to destroy, for an id that no entry carries, throws: the
  report reads the name of the entry that was not found. This happens through the user
  interface when a second dialog is still open for an entry that the first one has
  removed, and the roll of the second fails with the checkbox set.
\<close>

theorem remove_unlisted_id_throws:
  "find (\<lambda>m. m_id m = Some ''ghost'') (getInstalledMods full_chassis) = None
   \<and> fst (performRemove full_chassis (Some ''ghost'') False) = Some TypeError
   \<and> find (\<lambda>m. m_id m = Some ''mod-a'')
        (getInstalledMods (snd (mod_delete full_chassis (Some ''mod-a'') Direct))) = None
   \<and> fst (showModActionDialog (snd (mod_delete full_chassis (Some ''mod-a'') Direct))
            (ModEntry keen_edge_entry) ''remove'' (Roll 3 True)) = Some TypeError"
  by code_simp

text \<open>
  C7. A rarity label that is in no table gets rank 1 and two slots, as "common" does
  under the registered defaults, but the DC 14 of "uncommon"; a common modification and
  one without a label get the DC 10.
\<close>

theorem unknown_rarity_gets_dc_14:
  "rarityKey (ModItem mythic_shard) = ''mythic''
   \<and> rank (rarityKey (ModItem mythic_shard)) = Number 1
   \<and> slots_max registered_defaults (rarityKey (ModItem mythic_shard)) = 2
   \<and> dc (ModItem mythic_shard) = Number 14
   \<and> dc (ModItem keen_edge) = Number 10
   \<and> dc (ModItem keen_blade) = Number 10
   \<and> object_lookup rarities ''uncommon'' = Number 14"
  by code_simp

end
